theory Spec2Isabelle
  imports Main
begin

section \<open>Identifier sanitizer (src/utils/validation.ts)\<close>

subsection \<open>Regular expressions and \<open>RegExp.test\<close>\<close>

text \<open>
  The sanitizer tests its argument against the regular expression literal
  \<^verbatim>\<open>/^[a-zA-Z_][a-zA-Z0-9_]*$/\<close>. A regular expression is data: a character class
  is a list of inclusive ranges, and the literal is built from classes, sequence and
  iteration. \<open>Zero\<close>, \<open>One\<close> and \<open>Alt\<close> are needed by the matcher only.
\<close>

datatype rexp =
    Zero
  | One
  | Class "(char \<times> char) list"
  | Alt rexp rexp
  | Seq rexp rexp
  | Star rexp

definition in_range :: "char \<times> char \<Rightarrow> char \<Rightarrow> bool" where
  "in_range rg c = ((of_char (fst rg) :: nat) \<le> of_char c \<and> (of_char c :: nat) \<le> of_char (snd rg))"

definition in_class :: "(char \<times> char) list \<Rightarrow> char \<Rightarrow> bool" where
  "in_class rgs c = list_ex (\<lambda>rg. in_range rg c) rgs"

text \<open>The meaning of a regular expression: the set of strings it matches in full.\<close>

definition conc :: "string set \<Rightarrow> string set \<Rightarrow> string set" where
  "conc A B = {u @ v | u v. u \<in> A \<and> v \<in> B}"

inductive_set reps :: "string set \<Rightarrow> string set" for A :: "string set" where
  reps_nil: "[] \<in> reps A"
| reps_app: "u \<in> A \<Longrightarrow> v \<in> reps A \<Longrightarrow> u @ v \<in> reps A"

primrec lang :: "rexp \<Rightarrow> string set" where
  "lang Zero = {}"
| "lang One = {[]}"
| "lang (Class rgs) = {[c] | c. in_class rgs c}"
| "lang (Alt r s) = lang r \<union> lang s"
| "lang (Seq r s) = conc (lang r) (lang s)"
| "lang (Star r) = reps (lang r)"

text \<open>
  Strings are lists of 8-bit characters; a character outside ASCII is in neither class
  of the pattern. \<open>RegExp.prototype.test\<close> on a pattern anchored by \<^verbatim>\<open>^\<close> and \<^verbatim>\<open>$\<close> with no flags
  (so both anchors stand for the ends of the input, never for a line break) decides
  whether the whole input matches the body. The matcher consumes the input one
  character at a time, rewriting the expression into the one that has to match the
  rest.
\<close>

primrec nullable :: "rexp \<Rightarrow> bool" where
  "nullable Zero = False"
| "nullable One = True"
| "nullable (Class rgs) = False"
| "nullable (Alt r s) = (nullable r \<or> nullable s)"
| "nullable (Seq r s) = (nullable r \<and> nullable s)"
| "nullable (Star r) = True"

primrec after :: "char \<Rightarrow> rexp \<Rightarrow> rexp" where
  "after c Zero = Zero"
| "after c One = Zero"
| "after c (Class rgs) = (if in_class rgs c then One else Zero)"
| "after c (Alt r s) = Alt (after c r) (after c s)"
| "after c (Seq r s) =
     (if nullable r then Alt (Seq (after c r) s) (after c s) else Seq (after c r) s)"
| "after c (Star r) = Seq (after c r) (Star r)"

primrec test :: "rexp \<Rightarrow> string \<Rightarrow> bool" where
  "test r [] = nullable r"
| "test r (c # cs) = test (after c r) cs"

subsection \<open>The sanitizer\<close>

text \<open>
  Errors are values. Each constructor stands for one \<^verbatim>\<open>new Error(...)\<close> of the
  sources or for an error raised by a collaborator:
  \<^item> \<open>InvalidIdentifier s\<close>: the message "Identificador SQL invalido: " followed by \<open>s\<close>
    (validation.ts, line 22);
  \<^item> \<open>ValidationFailed ps\<close>: the message "Validacion fallida: " followed by one entry
    per offending path (validation.ts, line 9);
  \<^item> \<open>NotInitialized\<close>: "Conexion no inicializada. Llama a initConnection() primero."
    (connection.ts, line 86);
  \<^item> \<open>TypeError\<close>: destructuring \<^verbatim>\<open>undefined\<close> or \<^verbatim>\<open>null\<close>;
  \<^item> \<open>DbError m\<close>: an error with message \<open>m\<close> raised by the PostgreSQL client;
  \<^item> \<open>FsError m\<close>: an error with message \<open>m\<close> raised by the file system.
\<close>

datatype error =
    InvalidIdentifier string
  | ValidationFailed "string list"
  | NotInitialized
  | TypeError
  | DbError string
  | FsError string

definition identifier_regex :: rexp where
  "identifier_regex =
     Seq (Class [(CHR ''a'', CHR ''z''), (CHR ''A'', CHR ''Z''), (CHR ''_'', CHR ''_'')])
         (Star (Class [(CHR ''a'', CHR ''z''), (CHR ''A'', CHR ''Z''),
                       (CHR ''0'', CHR ''9''), (CHR ''_'', CHR ''_'')]))"

definition isValidSQLIdentifier :: "string \<Rightarrow> bool" where
  "isValidSQLIdentifier identifier = test identifier_regex identifier"

definition sanitizeSQLIdentifier :: "string \<Rightarrow> error + string" where
  "sanitizeSQLIdentifier identifier =
     (if \<not> isValidSQLIdentifier identifier then Inl (InvalidIdentifier identifier)
      else Inr identifier)"


section \<open>Values, records and the database (src/unnamed/part_002)\<close>

text \<open>
  Handler arguments have the TypeScript type \<^verbatim>\<open>unknown\<close>: any JavaScript value may
  arrive. An object is a list of properties; where a key is repeated the later
  property wins, as in an object literal.
\<close>

datatype jsval =
    Undefined
  | Null
  | Bool bool
  | Num int
  | Str string
  | Arr "jsval list"
  | Obj "(string \<times> jsval) list"

text \<open>Reading a property: \<^verbatim>\<open>undefined\<close> and \<^verbatim>\<open>null\<close> have none (a \<open>TypeError\<close>),
  a missing property reads as \<^verbatim>\<open>undefined\<close>.\<close>

fun get_prop :: "jsval \<Rightarrow> string \<Rightarrow> error + jsval" where
  "get_prop Undefined k = Inl TypeError"
| "get_prop Null k = Inl TypeError"
| "get_prop (Obj kvs) k = (case map_of (rev kvs) k of None \<Rightarrow> Inr Undefined | Some v \<Rightarrow> Inr v)"
| "get_prop v k = Inr Undefined"

text \<open>
  One row of the table \<^verbatim>\<open>supabase_migrations\<close> (src/unnamed/part_002, the migration tools, lines 81 to 89).
  \<open>row_id\<close> is the column \<^verbatim>\<open>id\<close>, of type \<^verbatim>\<open>UUID\<close>: the identifier in the
  spelling the server prints. Timestamps are points of a discrete clock. The columns
  \<^verbatim>\<open>applied\<close>, \<^verbatim>\<open>applied_at\<close> and \<^verbatim>\<open>created_at\<close> may hold \<^verbatim>\<open>NULL\<close>
  (\<open>None\<close>); the other four are declared \<^verbatim>\<open>NOT NULL\<close>.
\<close>

record migration =
  row_id :: string
  name :: string
  up_sql :: string
  down_sql :: string
  applied :: "bool option"
  applied_at :: "nat option"
  created_at :: "nat option"

text \<open>\<^verbatim>\<open>migration.applied\<close> as a condition: a flag that is \<^verbatim>\<open>NULL\<close> counts as not set.\<close>

definition is_applied :: "migration \<Rightarrow> bool" where
  "is_applied r = (applied r = Some True)"

text \<open>
  The contents of the database: the migrations table (\<open>None\<close> while it does not exist)
  and everything else, of a type \<open>'u\<close> the model does not look into.
\<close>

record 'u content =
  tbl :: "migration list option"
  user :: 'u

definition the_rows :: "'u content \<Rightarrow> migration list" where
  "the_rows c = (case tbl c of None \<Rightarrow> [] | Some rs \<Rightarrow> rs)"

section \<open>The PostgreSQL server\<close>

text \<open>
  The database server as the one session of the process sees it:
  \<^item> \<open>cur\<close>: the database contents;
  \<^item> \<open>tx\<close>: inside a transaction, the contents and the time at its \<^verbatim>\<open>BEGIN\<close>;
  \<^item> \<open>clock\<close>: the time, advanced by every statement that reaches the server.
\<close>

record 'u server =
  cur :: "'u content"
  tx :: "('u content \<times> nat) option"
  clock :: nat

text \<open>
  What the collaborators decide and the sources do not:
  \<^item> \<open>run_sql\<close>: what a piece of SQL text sent as it is does (a migration's
    \<^verbatim>\<open>up_sql\<close> or \<^verbatim>\<open>down_sql\<close>, or a generated statement). The text may do
    whatever SQL can: change user tables, change the \<^verbatim>\<open>supabase_migrations\<close> table,
    begin or end a transaction; and it may fail after a part of it has run. So it
    gives the server afterwards, together with the error message when it failed;
  \<^item> \<open>several\<close>: whether a text holds several statements (the driver then answers
    with an array of results instead of one result);
  \<^item> \<open>uuid_in\<close>: how the server reads a text as a value of type \<^verbatim>\<open>UUID\<close>: nothing
    when the text is not the text of an identifier, else the identifier in the
    spelling the server prints, the same for every spelling of one identifier;
  \<^item> \<open>gen_random_uuid\<close>: the identifier that \<^verbatim>\<open>gen_random_uuid()\<close> draws at a given
    moment;
  \<^item> \<open>base_tables\<close>: the base tables of the public schema.
\<close>

record 'u env =
  run_sql :: "string \<Rightarrow> 'u server \<Rightarrow> string option \<times> 'u server"
  several :: "string \<Rightarrow> bool"
  uuid_in :: "string \<Rightarrow> string option"
  gen_random_uuid :: "nat \<Rightarrow> string"
  base_tables :: "'u \<Rightarrow> string list"

text \<open>The statements the handlers send. The texts are those of the sources; \<open>$1\<close> is
  the bound parameter, carried by the constructor.\<close>

datatype stmt =
    CreateTable
      \<comment> \<open>\<^verbatim>\<open>CREATE TABLE IF NOT EXISTS supabase_migrations (...)\<close>\<close>
  | InsertMigration string string string
      \<comment> \<open>\<^verbatim>\<open>INSERT INTO supabase_migrations (name, up_sql, down_sql) VALUES ($1, $2, $3) RETURNING ...\<close>\<close>
  | SelectAll
      \<comment> \<open>\<^verbatim>\<open>SELECT id, name, applied, applied_at, created_at ... ORDER BY created_at ASC\<close>\<close>
  | SelectForApply jsval
      \<comment> \<open>\<^verbatim>\<open>SELECT id, name, up_sql, applied FROM supabase_migrations WHERE id = $1\<close>\<close>
  | SelectForRollback jsval
      \<comment> \<open>\<^verbatim>\<open>SELECT id, name, down_sql, applied FROM supabase_migrations WHERE id = $1\<close>\<close>
  | Begin
  | Commit
  | Rollback
  | MarkApplied jsval
      \<comment> \<open>\<^verbatim>\<open>UPDATE supabase_migrations SET applied = TRUE, applied_at = NOW() WHERE id = $1\<close>\<close>
  | MarkReverted jsval
      \<comment> \<open>\<^verbatim>\<open>UPDATE supabase_migrations SET applied = FALSE, applied_at = NULL WHERE id = $1\<close>\<close>
  | StatusQuery
      \<comment> \<open>\<^verbatim>\<open>SELECT COUNT(*), COUNT(CASE WHEN applied = TRUE ...), COUNT(CASE WHEN applied = FALSE ...), MAX(applied_at)\<close>\<close>
  | ListBaseTables
      \<comment> \<open>\<^verbatim>\<open>SELECT table_name FROM information_schema.tables WHERE table_schema = 'public' AND ...\<close>\<close>
  | Text string
      \<comment> \<open>SQL text sent as it is, with no parameters\<close>

text \<open>What the driver answers: the rows of a result, or, for a text that holds
  several statements, an array of results, which has no \<^verbatim>\<open>rows\<close> of its own.\<close>

datatype reply =
    Rows "migration list"
  | StatusRow nat nat nat "nat option"
  | Names "string list"
  | Batch

text \<open>\<^verbatim>\<open>NOW()\<close> is the start of the current transaction.\<close>

definition now :: "'u server \<Rightarrow> nat" where
  "now d = (case tx d of Some (snap, t) \<Rightarrow> t | None \<Rightarrow> clock d)"

text \<open>
  The parameter of \<^verbatim>\<open>WHERE id = $1\<close>, on a column of type \<^verbatim>\<open>UUID\<close>. The driver
  sends \<^verbatim>\<open>undefined\<close> and \<^verbatim>\<open>null\<close> as \<^verbatim>\<open>NULL\<close>, a string as it is, and a
  number, a boolean, an array or an object as a text that is never the text of an
  identifier. The server reads the text as an identifier and rejects the statement
  when it is none. \<^verbatim>\<open>NULL\<close> equals no identifier.
\<close>

definition bad_uuid :: string where
  "bad_uuid = ''invalid input syntax for type uuid''"

fun uuid_param :: "'u env \<Rightarrow> jsval \<Rightarrow> string + string option" where
  "uuid_param env Undefined = Inr None"
| "uuid_param env Null = Inr None"
| "uuid_param env (Str s) =
     (case uuid_in env s of None \<Rightarrow> Inl bad_uuid | Some i \<Rightarrow> Inr (Some i))"
| "uuid_param env v = Inl bad_uuid"

definition has_id :: "string option \<Rightarrow> migration \<Rightarrow> bool" where
  "has_id k r = (k = Some (row_id r))"

definition set_rows :: "migration list \<Rightarrow> 'u server \<Rightarrow> 'u server" where
  "set_rows rs d = d\<lparr>cur := (cur d)\<lparr>tbl := Some rs\<rparr>\<rparr>"

definition no_table :: string where
  "no_table = ''relation supabase_migrations does not exist''"

text \<open>\<^verbatim>\<open>MAX\<close> skips \<^verbatim>\<open>NULL\<close> and is \<^verbatim>\<open>NULL\<close> when nothing is left.\<close>

fun sql_max :: "nat option list \<Rightarrow> nat option" where
  "sql_max [] = None"
| "sql_max (None # xs) = sql_max xs"
| "sql_max (Some a # xs) = (case sql_max xs of None \<Rightarrow> Some a | Some b \<Rightarrow> Some (max a b))"

text \<open>\<^verbatim>\<open>ORDER BY created_at ASC\<close>: rows whose time is \<^verbatim>\<open>NULL\<close> come last.\<close>

definition by_creation :: "migration list \<Rightarrow> migration list" where
  "by_creation rs =
     sort_key (\<lambda>r. case created_at r of None \<Rightarrow> 0 | Some t \<Rightarrow> t)
       (filter (\<lambda>r. created_at r \<noteq> None) rs)
     @ filter (\<lambda>r. created_at r = None) rs"

text \<open>The two \<^verbatim>\<open>UPDATE\<close> statements, on one row.\<close>

definition mark_applied :: "nat \<Rightarrow> migration \<Rightarrow> migration" where
  "mark_applied t r = r\<lparr>applied := Some True, applied_at := Some t\<rparr>"

definition mark_reverted :: "migration \<Rightarrow> migration" where
  "mark_reverted r = r\<lparr>applied := Some False, applied_at := None\<rparr>"

text \<open>
  What the server does with a statement that reaches it. A statement of the handlers
  that fails changes nothing; SQL text does what \<open>run_sql\<close> says, also when it fails.
  The columns of a new row other than the three given take their defaults
  (\<^verbatim>\<open>applied\<close> false, \<^verbatim>\<open>applied_at\<close> null, \<^verbatim>\<open>created_at\<close> now); \<^verbatim>\<open>name\<close> is at
  most 255 characters and unique, \<^verbatim>\<open>id\<close> is the primary key. \<^verbatim>\<open>BEGIN\<close> inside a
  transaction and \<^verbatim>\<open>ROLLBACK\<close> or \<^verbatim>\<open>COMMIT\<close> outside one are warnings, not errors.
\<close>

fun db_exec :: "'u env \<Rightarrow> stmt \<Rightarrow> 'u server \<Rightarrow> (string + reply) \<times> 'u server" where
  "db_exec env CreateTable d =
     (case tbl (cur d) of
        None \<Rightarrow> (Inr (Rows []), set_rows [] d)
      | Some rs \<Rightarrow> (Inr (Rows []), d))"
| "db_exec env (InsertMigration n u dn) d =
     (case tbl (cur d) of
        None \<Rightarrow> (Inl no_table, d)
      | Some rs \<Rightarrow>
          if 255 < length n then (Inl ''value too long for type character varying(255)'', d)
          else if n \<in> set (map name rs)
            then (Inl ''duplicate key value violates unique constraint supabase_migrations_name_key'', d)
          else if gen_random_uuid env (clock d) \<in> set (map row_id rs)
            then (Inl ''duplicate key value violates unique constraint supabase_migrations_pkey'', d)
          else
            (let r = \<lparr>row_id = gen_random_uuid env (clock d), name = n, up_sql = u, down_sql = dn,
                      applied = Some False, applied_at = None, created_at = Some (now d)\<rparr>
             in (Inr (Rows [r]), set_rows (rs @ [r]) d)))"
| "db_exec env SelectAll d =
     (case tbl (cur d) of
        None \<Rightarrow> (Inl no_table, d)
      | Some rs \<Rightarrow> (Inr (Rows (by_creation rs)), d))"
| "db_exec env (SelectForApply p) d =
     (case tbl (cur d) of
        None \<Rightarrow> (Inl no_table, d)
      | Some rs \<Rightarrow>
          (case uuid_param env p of
             Inl m \<Rightarrow> (Inl m, d)
           | Inr k \<Rightarrow> (Inr (Rows (filter (has_id k) rs)), d)))"
| "db_exec env (SelectForRollback p) d =
     (case tbl (cur d) of
        None \<Rightarrow> (Inl no_table, d)
      | Some rs \<Rightarrow>
          (case uuid_param env p of
             Inl m \<Rightarrow> (Inl m, d)
           | Inr k \<Rightarrow> (Inr (Rows (filter (has_id k) rs)), d)))"
| "db_exec env Begin d =
     (case tx d of
        None \<Rightarrow> (Inr (Rows []), d\<lparr>tx := Some (cur d, clock d)\<rparr>)
      | Some s \<Rightarrow> (Inr (Rows []), d))"
| "db_exec env Commit d = (Inr (Rows []), d\<lparr>tx := None\<rparr>)"
| "db_exec env Rollback d =
     (case tx d of
        None \<Rightarrow> (Inr (Rows []), d)
      | Some (snap, t) \<Rightarrow> (Inr (Rows []), d\<lparr>cur := snap, tx := None\<rparr>))"
| "db_exec env (MarkApplied p) d =
     (case tbl (cur d) of
        None \<Rightarrow> (Inl no_table, d)
      | Some rs \<Rightarrow>
          (case uuid_param env p of
             Inl m \<Rightarrow> (Inl m, d)
           | Inr k \<Rightarrow>
               (Inr (Rows []),
                set_rows (map (\<lambda>r. if has_id k r then mark_applied (now d) r else r) rs) d)))"
| "db_exec env (MarkReverted p) d =
     (case tbl (cur d) of
        None \<Rightarrow> (Inl no_table, d)
      | Some rs \<Rightarrow>
          (case uuid_param env p of
             Inl m \<Rightarrow> (Inl m, d)
           | Inr k \<Rightarrow>
               (Inr (Rows []),
                set_rows (map (\<lambda>r. if has_id k r then mark_reverted r else r) rs) d)))"
| "db_exec env StatusQuery d =
     (case tbl (cur d) of
        None \<Rightarrow> (Inl no_table, d)
      | Some rs \<Rightarrow>
          (Inr (StatusRow (length rs) (length (filter is_applied rs))
                  (length (filter (\<lambda>r. applied r = Some False) rs)) (sql_max (map applied_at rs))), d))"
| "db_exec env ListBaseTables d = (Inr (Names (base_tables env (user (cur d)))), d)"
| "db_exec env (Text sql) d =
     (case run_sql env sql d of
        (Some m, d') \<Rightarrow> (Inl m, d')
      | (None, d') \<Rightarrow> (Inr (if several env sql then Batch else Rows []), d'))"

text \<open>
  A session that opens or closes leaves no transaction of an earlier session behind
  for the new one: what that transaction did and had not committed is not seen again.
\<close>

definition session_reset :: "'u server \<Rightarrow> 'u server" where
  "session_reset d =
     (case tx d of None \<Rightarrow> d | Some (snap, t) \<Rightarrow> d\<lparr>cur := snap, tx := None\<rparr>)"

section \<open>Connection manager (src/utils/connection.ts)\<close>

record config =
  url :: string
  serviceRoleKey :: string
  dbUrl :: string
  jwtSecret :: string
  anonKey :: string

text \<open>A \<^verbatim>\<open>SupabaseConnection\<close>: its configuration and whether its PostgreSQL client
  has an open session.\<close>

record handle =
  hconfig :: config
  connected :: bool

text \<open>
  The state of the process and of the server it talks to:
  \<^item> \<open>connection\<close>: the module variable of connection.ts (line 82);
  \<^item> \<open>db\<close>: the server;
  \<^item> \<open>faults\<close>: what the coming input/output operations do, one entry each:
    \<open>Some m\<close> makes the operation fail with message \<open>m\<close> and no effect (a lost
    connection, a timeout, a statement refused inside a transaction that has been
    aborted), \<open>None\<close> lets it run;
    past the end of the list nothing fails;
  \<^item> \<open>log\<close>: every statement sent to the server, with the error message when it failed.
\<close>

record 'u world =
  connection :: "handle option"
  db :: "'u server"
  faults :: "string option list"
  log :: "(stmt \<times> string option) list"

text \<open>Computations that change the world and either throw or return.\<close>

type_synonym ('u, 'a) io = "'u world \<Rightarrow> (error + 'a) \<times> 'u world"

definition ret :: "'a \<Rightarrow> ('u, 'a) io" where
  "ret x = (\<lambda>w. (Inr x, w))"

definition throw :: "error \<Rightarrow> ('u, 'a) io" where
  "throw e = (\<lambda>w. (Inl e, w))"

definition bind :: "('u, 'a) io \<Rightarrow> ('a \<Rightarrow> ('u, 'b) io) \<Rightarrow> ('u, 'b) io" where
  "bind m f = (\<lambda>w. case m w of (Inl e, w') \<Rightarrow> (Inl e, w') | (Inr x, w') \<Rightarrow> f x w')"

definition try_catch :: "('u, 'a) io \<Rightarrow> (error \<Rightarrow> ('u, 'a) io) \<Rightarrow> ('u, 'a) io" where
  "try_catch m h = (\<lambda>w. case m w of (Inl e, w') \<Rightarrow> h e w' | (Inr x, w') \<Rightarrow> (Inr x, w'))"

text \<open>An input/output operation takes the next entry of \<open>faults\<close>.\<close>

fun peek :: "string option list \<Rightarrow> string option" where
  "peek [] = None"
| "peek (f # fs) = f"

definition next_fault :: "'u world \<Rightarrow> string option \<times> 'u world" where
  "next_fault w = (peek (faults w), w\<lparr>faults := tl (faults w)\<rparr>)"

definition set_connected :: "bool \<Rightarrow> 'u world \<Rightarrow> 'u world" where
  "set_connected b w =
     w\<lparr>connection := map_option (\<lambda>h. h\<lparr>connected := b\<rparr>) (connection w)\<rparr>"

text \<open>\<^verbatim>\<open>SupabaseConnection.connect\<close> (lines 34 to 42), on the instance the module
  variable holds: the error of \<^verbatim>\<open>pgClient.connect()\<close> is logged and thrown again.\<close>

definition connect :: "('u, unit) io" where
  "connect w =
     (case next_fault w of
        (Some m, w1) \<Rightarrow> (Inl (DbError m), w1)
      | (None, w1) \<Rightarrow> (Inr (), set_connected True (w1\<lparr>db := session_reset (db w1)\<rparr>)))"

text \<open>\<^verbatim>\<open>SupabaseConnection.disconnect\<close> (lines 44 to 51): the error of
  \<^verbatim>\<open>pgClient.end()\<close> is logged and not thrown.\<close>

definition disconnect :: "('u, unit) io" where
  "disconnect w =
     (case next_fault w of
        (Some m, w1) \<Rightarrow> (Inr (), w1)
      | (None, w1) \<Rightarrow> (Inr (), set_connected False (w1\<lparr>db := session_reset (db w1)\<rparr>)))"

definition getConnection :: "('u, handle) io" where
  "getConnection w =
     (case connection w of None \<Rightarrow> (Inl NotInitialized, w) | Some h \<Rightarrow> (Inr h, w))"

text \<open>\<^verbatim>\<open>initConnection\<close> (lines 91 to 95). Constructing the instance builds the two
  clients from the configuration and opens nothing.\<close>

definition initConnection :: "config \<Rightarrow> ('u, handle) io" where
  "initConnection cfg w =
     (let w1 = w\<lparr>connection := Some \<lparr>hconfig = cfg, connected = False\<rparr>\<rparr>
      in bind connect (\<lambda>_. getConnection) w1)"

definition closeConnection :: "('u, unit) io" where
  "closeConnection w =
     (case connection w of
        Some h \<Rightarrow> bind disconnect (\<lambda>_ w2. (Inr (), w2\<lparr>connection := None\<rparr>)) w
      | None \<Rightarrow> (Inr (), w))"

text \<open>Time passes with every statement that reaches the server.\<close>

definition tick :: "'u server \<Rightarrow> 'u server" where
  "tick d = d\<lparr>clock := Suc (clock d)\<rparr>"

definition not_queryable :: string where
  "not_queryable = ''Client has encountered a connection error and is not queryable''"

text \<open>
  \<^verbatim>\<open>connection.getPgClient().query(...)\<close>. A client without a session rejects the
  query and sends nothing. Otherwise the statement is sent and logged; it fails by a
  fault or by what the server finds.
\<close>

definition query :: "'u env \<Rightarrow> handle \<Rightarrow> stmt \<Rightarrow> ('u, reply) io" where
  "query env h st w =
     (if \<not> connected h then (Inl (DbError not_queryable), w)
      else
        (case next_fault w of
           (Some m, w1) \<Rightarrow> (Inl (DbError m), w1\<lparr>log := log w1 @ [(st, Some m)]\<rparr>)
         | (None, w1) \<Rightarrow>
             (case db_exec env st (tick (db w1)) of
                (Inl m, d) \<Rightarrow> (Inl (DbError m), w1\<lparr>db := d, log := log w1 @ [(st, Some m)]\<rparr>)
              | (Inr r, d) \<Rightarrow> (Inr r, w1\<lparr>db := d, log := log w1 @ [(st, None)]\<rparr>))))"

text \<open>\<^verbatim>\<open>result.rows\<close> and \<^verbatim>\<open>result.rows[0]\<close>.\<close>

fun rows_of :: "reply \<Rightarrow> migration list" where
  "rows_of (Rows rs) = rs"
| "rows_of r = []"

fun names_of :: "reply \<Rightarrow> string list" where
  "names_of (Names ns) = ns"
| "names_of r = []"

definition first_row :: "reply \<Rightarrow> migration option" where
  "first_row r = (case rows_of r of [] \<Rightarrow> None | x # xs \<Rightarrow> Some x)"

section \<open>Input validation (src/utils/validation.ts, src/types/mcp.ts)\<close>

text \<open>
  A schema either parses a value or reports the paths of its issues.
  \<^verbatim>\<open>validateInput\<close> turns the issues into one thrown error.
\<close>

definition validateInput :: "(jsval \<Rightarrow> string list + 'a) \<Rightarrow> jsval \<Rightarrow> error + 'a" where
  "validateInput schema data =
     (case schema data of Inl issues \<Rightarrow> Inl (ValidationFailed issues) | Inr v \<Rightarrow> Inr v)"

text \<open>\<^verbatim>\<open>z.string()\<close> at a key of an object.\<close>

definition string_issue :: "(string \<times> jsval) list \<Rightarrow> string \<Rightarrow> string list" where
  "string_issue kvs k = (case map_of (rev kvs) k of Some (Str s) \<Rightarrow> [] | _ \<Rightarrow> [k])"

text \<open>\<^verbatim>\<open>z.object({ name: z.string(), up: z.string(), down: z.string() })\<close>: a value
  that is no object is one issue at the empty path.\<close>

fun CreateMigrationSchema :: "jsval \<Rightarrow> string list + (string \<times> string \<times> string)" where
  "CreateMigrationSchema (Obj kvs) =
     (case (map_of (rev kvs) ''name'', map_of (rev kvs) ''up'', map_of (rev kvs) ''down'') of
        (Some (Str n), Some (Str u), Some (Str d)) \<Rightarrow> Inr (n, u, d)
      | _ \<Rightarrow> Inl (concat (map (string_issue kvs) [''name'', ''up'', ''down''])))"
| "CreateMigrationSchema v = Inl ['''']"


section \<open>Migration engine (src/unnamed/part_002)\<close>

text \<open>
  What a handler returns. \<open>Failure\<close> is \<^verbatim>\<open>{ success: false, error: ... }\<close>; its
  argument stands for the text of \<^verbatim>\<open>error\<close>:
  \<^item> \<open>NotFound v\<close>: "Migracion con ID 'v' no encontrada";
  \<^item> \<open>AlreadyApplied n\<close>: "Migracion 'n' ya esta aplicada";
  \<^item> \<open>NotApplied n\<close>: "Migracion 'n' no esta aplicada";
  \<^item> \<open>Caught e\<close>: the message of the error \<open>e\<close> that the handler caught.
  \<open>Success\<close> is \<^verbatim>\<open>{ success: true, ... }\<close> with the other fields of the object.
\<close>

datatype message =
    NotFound jsval
  | AlreadyApplied string
  | NotApplied string
  | Caught error

datatype payload =
    Created "migration option" string
  | Listed "migration list"
  | AppliedOk string
  | RevertedOk string
  | StatusOk nat nat nat "nat option"
  | BackedUp
  | Dropped string string

datatype result = Success payload | Failure message

definition lift :: "error + 'a \<Rightarrow> ('u, 'a) io" where
  "lift r = (\<lambda>w. (r, w))"

text \<open>The \<^verbatim>\<open>catch\<close> block every handler ends with: log the error, return its message.
  Writing to the log is left out of the model, here and in the handlers.\<close>

definition report :: "error \<Rightarrow> ('u, result) io" where
  "report e = ret (Failure (Caught e))"

definition ensureMigrationTable :: "'u env \<Rightarrow> ('u, unit) io" where
  "ensureMigrationTable env =
     bind getConnection (\<lambda>connection.
     bind (query env connection CreateTable) (\<lambda>r.
     ret ()))"

definition handleCreateMigration :: "'u env \<Rightarrow> jsval \<Rightarrow> ('u, result) io" where
  "handleCreateMigration env args =
     bind (lift (validateInput CreateMigrationSchema args)) (\<lambda>(n, up, down).
     bind getConnection (\<lambda>connection.
     try_catch
       (bind (ensureMigrationTable env) (\<lambda>u.
        bind (query env connection (InsertMigration n up down)) (\<lambda>result.
        ret (Success (Created (first_row result) n)))))
       report))"

definition handleListMigrations :: "'u env \<Rightarrow> ('u, result) io" where
  "handleListMigrations env =
     bind getConnection (\<lambda>connection.
     try_catch
       (bind (ensureMigrationTable env) (\<lambda>u.
        bind (query env connection SelectAll) (\<lambda>result.
        ret (Success (Listed (rows_of result))))))
       report)"

definition handleApplyMigration :: "'u env \<Rightarrow> jsval \<Rightarrow> ('u, result) io" where
  "handleApplyMigration env args =
     bind (lift (get_prop args ''migrationId'')) (\<lambda>migrationId.
     bind getConnection (\<lambda>connection.
     try_catch
       (bind (ensureMigrationTable env) (\<lambda>u.
        bind (query env connection (SelectForApply migrationId)) (\<lambda>migrationResult.
        (case rows_of migrationResult of
           [] \<Rightarrow> ret (Failure (NotFound migrationId))
         | migration # others \<Rightarrow>
             if is_applied migration then ret (Failure (AlreadyApplied (name migration)))
             else
               bind (query env connection Begin) (\<lambda>b.
               try_catch
                 (bind (query env connection (Text (up_sql migration))) (\<lambda>r1.
                  bind (query env connection (MarkApplied migrationId)) (\<lambda>r2.
                  bind (query env connection Commit) (\<lambda>r3.
                  ret (Success (AppliedOk (name migration)))))))
                 (\<lambda>e. bind (query env connection Rollback) (\<lambda>r4. throw e)))))))
       report))"

definition handleRollbackMigration :: "'u env \<Rightarrow> jsval \<Rightarrow> ('u, result) io" where
  "handleRollbackMigration env args =
     bind (lift (get_prop args ''migrationId'')) (\<lambda>migrationId.
     bind getConnection (\<lambda>connection.
     try_catch
       (bind (ensureMigrationTable env) (\<lambda>u.
        bind (query env connection (SelectForRollback migrationId)) (\<lambda>migrationResult.
        (case rows_of migrationResult of
           [] \<Rightarrow> ret (Failure (NotFound migrationId))
         | migration # others \<Rightarrow>
             if \<not> is_applied migration then ret (Failure (NotApplied (name migration)))
             else
               bind (query env connection Begin) (\<lambda>b.
               try_catch
                 (bind (query env connection (Text (down_sql migration))) (\<lambda>r1.
                  bind (query env connection (MarkReverted migrationId)) (\<lambda>r2.
                  bind (query env connection Commit) (\<lambda>r3.
                  ret (Success (RevertedOk (name migration)))))))
                 (\<lambda>e. bind (query env connection Rollback) (\<lambda>r4. throw e)))))))
       report))"

text \<open>The counts arrive as decimal text and are read back by \<^verbatim>\<open>parseInt\<close>; a reply
  with no first row makes the property access throw, inside the \<^verbatim>\<open>try\<close>.\<close>

definition handleGetMigrationStatus :: "'u env \<Rightarrow> ('u, result) io" where
  "handleGetMigrationStatus env =
     bind getConnection (\<lambda>connection.
     try_catch
       (bind (ensureMigrationTable env) (\<lambda>u.
        bind (query env connection StatusQuery) (\<lambda>result.
        (case result of
           StatusRow total_migrations applied_migrations pending_migrations last_applied_at \<Rightarrow>
             ret (Success (StatusOk total_migrations applied_migrations pending_migrations
                             last_applied_at))
         | other \<Rightarrow> throw TypeError))))
       report)"

text \<open>The operations of the engine, and a run of several of them one after the other.
  An operation that throws leaves the world as it was when it threw.\<close>

datatype operation =
    CreateMigration jsval
  | ListMigrations
  | ApplyMigration jsval
  | RollbackMigration jsval
  | GetMigrationStatus

fun handle_op :: "'u env \<Rightarrow> operation \<Rightarrow> ('u, result) io" where
  "handle_op env (CreateMigration args) = handleCreateMigration env args"
| "handle_op env ListMigrations = handleListMigrations env"
| "handle_op env (ApplyMigration args) = handleApplyMigration env args"
| "handle_op env (RollbackMigration args) = handleRollbackMigration env args"
| "handle_op env GetMigrationStatus = handleGetMigrationStatus env"

fun run_ops :: "'u env \<Rightarrow> operation list \<Rightarrow> 'u world \<Rightarrow> 'u world" where
  "run_ops env [] w = w"
| "run_ops env (x # xs) w = run_ops env xs (snd (handle_op env x w))"

section \<open>Two handlers that build SQL text from names (src/tools/admin.ts, src/unnamed/part_003)\<close>

text \<open>
  \<^verbatim>\<open>handleBackupDatabase\<close> (admin.ts, lines 180 to 275), with its arguments as the
  cast in the handler types them; a missing format is \<^verbatim>\<open>sql\<close>. Both formats read
  every table with the same statement, \<^verbatim>\<open>SELECT * FROM\<close> followed by the table's
  name. The SQL format then reads \<^verbatim>\<open>result.rows.length\<close>, which throws a type error
  when the answer is an array of results; the JSON format stores \<^verbatim>\<open>result.rows\<close>
  whatever it is. The file system is not modelled beyond its failures.
\<close>

datatype backup_format = SqlFormat | JsonFormat

record backup_args =
  tables :: "string list option"
  format :: "backup_format option"

definition fs_op :: "('u, unit) io" where
  "fs_op w =
     (case next_fault w of
        (Some m, w1) \<Rightarrow> (Inl (FsError m), w1)
      | (None, w1) \<Rightarrow> (Inr (), w1))"

text \<open>\<^verbatim>\<open>tables || []\<close>, filled from the public schema when it is empty.\<close>

definition tables_to_backup :: "'u env \<Rightarrow> handle \<Rightarrow> backup_args \<Rightarrow> ('u, string list) io" where
  "tables_to_backup env pg args =
     (case (case tables args of None \<Rightarrow> [] | Some ts \<Rightarrow> ts) of
        [] \<Rightarrow> bind (query env pg ListBaseTables) (\<lambda>tableResult. ret (names_of tableResult))
      | t # ts \<Rightarrow> ret (t # ts))"

fun dump_each :: "'u env \<Rightarrow> handle \<Rightarrow> string list \<Rightarrow> ('u, unit) io" where
  "dump_each env pg [] = ret ()"
| "dump_each env pg (table # rest) =
     bind (query env pg (Text (''SELECT * FROM '' @ table))) (\<lambda>result.
     bind (case result of Batch \<Rightarrow> throw TypeError | other \<Rightarrow> ret ()) (\<lambda>u.
     dump_each env pg rest))"

fun select_each :: "'u env \<Rightarrow> handle \<Rightarrow> string list \<Rightarrow> ('u, unit) io" where
  "select_each env pg [] = ret ()"
| "select_each env pg (table # rest) =
     bind (query env pg (Text (''SELECT * FROM '' @ table))) (\<lambda>result.
     select_each env pg rest)"

definition handleBackupDatabase :: "'u env \<Rightarrow> backup_args \<Rightarrow> ('u, result) io" where
  "handleBackupDatabase env args =
     bind getConnection (\<lambda>connection.
     try_catch
       (bind fs_op (\<lambda>u.
        bind (case format args of
                Some JsonFormat \<Rightarrow>
                  bind (tables_to_backup env connection args) (\<lambda>tablesToBackup.
                  select_each env connection tablesToBackup)
              | other \<Rightarrow>
                  bind (tables_to_backup env connection args) (\<lambda>tablesToBackup.
                  dump_each env connection tablesToBackup)) (\<lambda>u.
        bind fs_op (\<lambda>u.
        ret (Success BackedUp)))))
       report)"

text \<open>
  \<^verbatim>\<open>handleDropTable\<close> (src/unnamed/part_003, the database tools, lines 322 to 350),
  with its arguments after the defaults of the destructuring: both names go through the
  sanitizer, inside the \<^verbatim>\<open>try\<close>, before the statement is built. An empty schema
  name is replaced by \<^verbatim>\<open>public\<close>.
\<close>

record drop_args =
  tableName :: string
  schema :: string
  cascade :: bool

definition handleDropTable :: "'u env \<Rightarrow> drop_args \<Rightarrow> ('u, result) io" where
  "handleDropTable env args =
     bind getConnection (\<lambda>connection.
     try_catch
       (bind (lift (sanitizeSQLIdentifier (tableName args))) (\<lambda>sanitizedTable.
        bind (lift (sanitizeSQLIdentifier (if schema args = [] then ''public'' else schema args)))
          (\<lambda>sanitizedSchema.
        bind (query env connection
               (Text (''DROP TABLE IF EXISTS '' @ sanitizedSchema @ ''.'' @ sanitizedTable
                      @ (if cascade args then '' CASCADE'' else []) @ '';''))) (\<lambda>r.
        ret (Success (Dropped sanitizedSchema sanitizedTable))))))
       report)"


section \<open>Reading the specification\<close>

text \<open>The character classes of the identifier pattern, spelled out.\<close>

definition letter :: "char \<Rightarrow> bool" where
  "letter c = (in_range (CHR ''a'', CHR ''z'') c \<or> in_range (CHR ''A'', CHR ''Z'') c)"

definition digit :: "char \<Rightarrow> bool" where
  "digit c = in_range (CHR ''0'', CHR ''9'') c"


text \<open>
  An operation is well shaped when the code that runs before its \<^verbatim>\<open>try\<close> block
  does not throw on its arguments: the schema of \<^verbatim>\<open>create_migration\<close> accepts
  them, and the arguments of \<^verbatim>\<open>apply_migration\<close> and \<^verbatim>\<open>rollback_migration\<close>
  can be destructured.
\<close>

fun well_shaped :: "operation \<Rightarrow> bool" where
  "well_shaped (CreateMigration args) =
     (case validateInput CreateMigrationSchema args of Inl e \<Rightarrow> False | Inr v \<Rightarrow> True)"
| "well_shaped (ApplyMigration args) = (args \<noteq> Undefined \<and> args \<noteq> Null)"
| "well_shaped (RollbackMigration args) = (args \<noteq> Undefined \<and> args \<noteq> Null)"
| "well_shaped ListMigrations = True"
| "well_shaped GetMigrationStatus = True"

text \<open>
  The invariant of a migration record (section 3 of the specification): a record whose
  flag is false has no time of application. The server keeps it when it holds of the
  contents and of the contents a \<^verbatim>\<open>ROLLBACK\<close> would bring back.
\<close>

definition rows_ok :: "migration list \<Rightarrow> bool" where
  "rows_ok rs = (\<forall>r\<in>set rs. applied r = Some False \<longrightarrow> applied_at r = None)"


text \<open>Every record has its flag: no \<^verbatim>\<open>applied\<close> is \<^verbatim>\<open>NULL\<close>.\<close>

definition flagged :: "migration list \<Rightarrow> bool" where
  "flagged rs = (\<forall>r\<in>set rs. applied r \<noteq> None)"

text \<open>No input/output operation to come is made to fail.\<close>

definition calm :: "'u world \<Rightarrow> bool" where
  "calm w = list_all (\<lambda>f. f = None) (faults w)"

text \<open>The records that the parameter of \<^verbatim>\<open>WHERE id = $1\<close> selects.\<close>

definition matches :: "'u env \<Rightarrow> jsval \<Rightarrow> migration \<Rightarrow> bool" where
  "matches env p r = (uuid_param env p = Inr (Some (row_id r)))"





text \<open>The values that are not null, in order.\<close>

fun somes :: "'a option list \<Rightarrow> 'a list" where
  "somes [] = []"
| "somes (None # xs) = somes xs"
| "somes (Some x # xs) = x # somes xs"

text \<open>The greatest time of application among the applied records, if there is one; and
  the greatest among all records that carry one.\<close>

definition applied_times :: "migration list \<Rightarrow> nat list" where
  "applied_times rs = somes (map applied_at (filter is_applied rs))"

definition last_applied :: "migration list \<Rightarrow> nat option" where
  "last_applied rs =
     (case applied_times rs of [] \<Rightarrow> None | t # ts \<Rightarrow> Some (Max (set (t # ts))))"

definition last_stamp :: "migration list \<Rightarrow> nat option" where
  "last_stamp rs =
     (case somes (map applied_at rs) of [] \<Rightarrow> None | t # ts \<Rightarrow> Some (Max (set (t # ts))))"




text \<open>
  The world after \<^verbatim>\<open>ensureMigrationTable\<close> and the lookup of a record, when no
  fault occurs: the table exists, two statements were sent, nothing else changed. The
  lookup either ran, or was rejected by the server with a message.
\<close>

definition ensured :: "'u content \<Rightarrow> 'u content" where
  "ensured c = (case tbl c of None \<Rightarrow> c\<lparr>tbl := Some []\<rparr> | Some rs \<Rightarrow> c)"

definition looked_up :: "stmt \<Rightarrow> 'u world \<Rightarrow> 'u world" where
  "looked_up sel w =
     w\<lparr>faults := tl (tl (faults w)),
       db := (db w)\<lparr>cur := ensured (cur (db w)), clock := clock (db w) + 2\<rparr>,
       log := log w @ [(CreateTable, None), (sel, None)]\<rparr>"

definition lookup_rejected :: "stmt \<Rightarrow> string \<Rightarrow> 'u world \<Rightarrow> 'u world" where
  "lookup_rejected sel m w =
     w\<lparr>faults := tl (tl (faults w)),
       db := (db w)\<lparr>cur := ensured (cur (db w)), clock := clock (db w) + 2\<rparr>,
       log := log w @ [(CreateTable, None), (sel, Some m)]\<rparr>"




section \<open>A concrete environment\<close>

text \<open>
  A database whose user part is the list of the SQL texts it has executed; one text is
  a syntax error, and a text with a semicolon before its end holds several statements.
  Identifiers are drawn from the clock.
\<close>

definition hex_digit :: "nat \<Rightarrow> char" where
  "hex_digit n = ''0123456789abcdef'' ! (n mod 16)"

definition demo_uuid :: "nat \<Rightarrow> string" where
  "demo_uuid n = ''3f2a9c1e-0000-4000-8000-0000000000'' @ [hex_digit (n div 16), hex_digit n]"

definition hex_value :: "char \<Rightarrow> char option" where
  "hex_value c = map_of (zip ''0123456789abcdefABCDEF'' ''0123456789abcdefabcdef'') c"

text \<open>
  The input function of the server's \<^verbatim>\<open>uuid\<close> type: sixteen bytes of two hexadecimal
  digits each, in either case, with an optional hyphen after every second byte but the
  last, the whole optionally in braces; the value is printed in lower case with the four
  usual hyphens.
\<close>

primrec uuid_bytes :: "nat \<Rightarrow> string \<Rightarrow> (string \<times> string) option" where
  "uuid_bytes 0 s = Some ([], s)"
| "uuid_bytes (Suc n) s =
     (case s of
        a # b # rest \<Rightarrow>
          (case (hex_value a, hex_value b) of
             (Some x, Some y) \<Rightarrow>
               map_option (\<lambda>(ds, r). (x # y # ds, r))
                 (uuid_bytes n (if even n \<and> 0 < n \<and> take 1 rest = ''-'' then tl rest else rest))
           | _ \<Rightarrow> None)
      | _ \<Rightarrow> None)"

definition demo_uuid_in :: "string \<Rightarrow> string option" where
  "demo_uuid_in s =
     (let braces = (take 1 s = ''{'') in
      case uuid_bytes 16 (if braces then tl s else s) of
        None \<Rightarrow> None
      | Some (ds, rest) \<Rightarrow>
          if rest = (if braces then ''}'' else [])
          then Some (take 8 ds @ ''-'' @ take 4 (drop 8 ds) @ ''-'' @ take 4 (drop 12 ds) @ ''-''
                       @ take 4 (drop 16 ds) @ ''-'' @ drop 20 ds)
          else None)"

definition demo_env :: "string list env" where
  "demo_env =
     \<lparr>run_sql = (\<lambda>sql d. if sql = ''CREATE TABEL users ()''
                          then (Some ''syntax error at or near TABEL'', d)
                          else (None, d\<lparr>cur := (cur d)\<lparr>user := user (cur d) @ [sql]\<rparr>\<rparr>)),
      several = (\<lambda>sql. CHR '';'' \<in> set (butlast sql)),
      uuid_in = demo_uuid_in,
      gen_random_uuid = demo_uuid,
      base_tables = (\<lambda>u. [''users''])\<rparr>"

text \<open>
  The same environment, in which four texts do more: the first creates a table,
  commits and then divides by zero; the second and the third write to the migrations
  table; the fourth empties it.
\<close>

definition commit_sql :: string where
  "commit_sql = ''CREATE TABLE a (); COMMIT; SELECT 1/0''"

definition rewrite_sql :: string where
  "rewrite_sql = ''UPDATE supabase_migrations SET applied_at = NOW(), up_sql = name''"

definition forget_sql :: string where
  "forget_sql = ''UPDATE supabase_migrations SET applied = NULL''"

definition delete_sql :: string where
  "delete_sql = ''DELETE FROM supabase_migrations''"

definition wild_env :: "string list env" where
  "wild_env =
     demo_env\<lparr>run_sql := (\<lambda>sql d.
        if sql = commit_sql
          then (Some ''division by zero'',
                d\<lparr>cur := (cur d)\<lparr>user := user (cur d) @ [''CREATE TABLE a ()'']\<rparr>, tx := None\<rparr>)
        else if sql = rewrite_sql
          then (None,
                d\<lparr>cur := (cur d)\<lparr>tbl := map_option
                       (map (\<lambda>r. r\<lparr>applied_at := Some (now d), up_sql := name r\<rparr>)) (tbl (cur d))\<rparr>\<rparr>)
        else if sql = forget_sql
          then (None,
                d\<lparr>cur := (cur d)\<lparr>tbl := map_option (map (\<lambda>r. r\<lparr>applied := None\<rparr>)) (tbl (cur d))\<rparr>\<rparr>)
        else if sql = delete_sql
          then (None, d\<lparr>cur := (cur d)\<lparr>tbl := map_option (\<lambda>rs. []) (tbl (cur d))\<rparr>\<rparr>)
        else run_sql demo_env sql d)\<rparr>"

definition demo_config :: config where
  "demo_config =
     \<lparr>url = ''http://localhost:8000'', serviceRoleKey = ''eyJhbGciOiJIUzI1NiJ9'',
      dbUrl = ''postgresql://postgres@localhost:5432/postgres'', jwtSecret = [], anonKey = []\<rparr>"

text \<open>The process before \<^verbatim>\<open>initConnection\<close> was ever called, on an empty database,
  with the faults to come.\<close>

definition fresh_world :: "string option list \<Rightarrow> string list world" where
  "fresh_world fs =
     \<lparr>connection = None, db = \<lparr>cur = \<lparr>tbl = None, user = []\<rparr>, tx = None, clock = 0\<rparr>,
      faults = fs, log = []\<rparr>"



definition live_world :: "string option list \<Rightarrow> string list world" where
  "live_world fs = (fresh_world fs)\<lparr>connection := Some \<lparr>hconfig = demo_config, connected = True\<rparr>\<rparr>"

text \<open>Arguments of \<^verbatim>\<open>create_migration\<close> for a table, and of \<^verbatim>\<open>apply_migration\<close> and
  \<^verbatim>\<open>rollback_migration\<close> for an identifier.\<close>

definition table_migration :: "string \<Rightarrow> jsval" where
  "table_migration n =
     Obj [(''name'', Str (''add_'' @ n)), (''up'', Str (''CREATE TABLE '' @ n @ '' ()'')),
          (''down'', Str (''DROP TABLE '' @ n))]"

definition by_id :: "string \<Rightarrow> jsval" where
  "by_id i = Obj [(''migrationId'', Str i)]"


text \<open>Three migrations created and the first of them applied.\<close>

definition three_created_one_applied :: "string list world" where
  "three_created_one_applied =
     run_ops demo_env
       [CreateMigration (table_migration ''users''), CreateMigration (table_migration ''posts''),
        CreateMigration (table_migration ''tags''), ApplyMigration (by_id (demo_uuid 2))]
       (live_world [])"





text \<open>One migration created; its record.\<close>

definition one_created :: "string list world" where
  "one_created = run_ops demo_env [CreateMigration (table_migration ''users'')] (live_world [])"




text \<open>Migrations whose forward SQL is one of the four texts, created on a live
  connection; the second and the third together with an ordinary migration.\<close>

definition sql_migration :: "string \<Rightarrow> string \<Rightarrow> jsval" where
  "sql_migration n sql = Obj [(''name'', Str n), (''up'', Str sql), (''down'', Str ''SELECT 1'')]"


definition rewrite_created :: "string list world" where
  "rewrite_created =
     run_ops wild_env
       [CreateMigration (sql_migration ''touch'' rewrite_sql), CreateMigration (table_migration ''posts'')]
       (live_world [])"

definition forget_created :: "string list world" where
  "forget_created =
     run_ops wild_env
       [CreateMigration (sql_migration ''forget'' forget_sql), CreateMigration (table_migration ''posts'')]
       (live_world [])"


section \<open>Theorems\<close>

subsection \<open>The matcher decides the language\<close>

lemma reps_cons:
  "(c # w \<in> reps A) = (\<exists>u v. w = u @ v \<and> c # u \<in> A \<and> v \<in> reps A)"
proof
  assume "c # w \<in> reps A"
  then show "\<exists>u v. w = u @ v \<and> c # u \<in> A \<and> v \<in> reps A"
  proof (induction "c # w" rule: reps.induct)
    case (reps_app u v)
    show ?case
    proof (cases u)
      case Nil
      with reps_app show ?thesis by simp
    next
      case (Cons a u')
      with reps_app have "w = u' @ v" "c # u' \<in> A" "v \<in> reps A" by auto
      then show ?thesis by blast
    qed
  qed
next
  assume "\<exists>u v. w = u @ v \<and> c # u \<in> A \<and> v \<in> reps A"
  then obtain u v where "w = u @ v" "c # u \<in> A" "v \<in> reps A" by blast
  then show "c # w \<in> reps A" using reps.reps_app [of "c # u" A v] by simp
qed

lemma nullable_lang: "nullable r = ([] \<in> lang r)"
  by (induction r) (auto simp: conc_def intro: reps.reps_nil)

lemma conc_cons:
  "(c # w \<in> conc A B) =
     ((\<exists>u v. w = u @ v \<and> c # u \<in> A \<and> v \<in> B) \<or> ([] \<in> A \<and> c # w \<in> B))"
  by (auto simp: conc_def Cons_eq_append_conv)

lemma after_lang: "(w \<in> lang (after c r)) = (c # w \<in> lang r)"
proof (induction r arbitrary: w)
  case (Seq r s)
  then show ?case by (auto simp: conc_cons nullable_lang) (auto simp: conc_def)
next
  case (Star r)
  then show ?case by (auto simp: reps_cons conc_def)
qed auto

lemma test_lang: "test r s = (s \<in> lang r)"
  by (induction s arbitrary: r) (simp_all add: nullable_lang after_lang)

subsection \<open>The identifier pattern\<close>

lemma reps_class: "reps {[c] | c. P c} = {cs. \<forall>x\<in>set cs. P x}"
proof (intro set_eqI iffI)
  fix cs assume "cs \<in> reps {[c] | c. P c}"
  then show "cs \<in> {cs. \<forall>x\<in>set cs. P x}"
    by (induction rule: reps.induct) auto
next
  fix cs assume "cs \<in> {cs. \<forall>x\<in>set cs. P x}"
  then show "cs \<in> reps {[c] | c. P c}"
  proof (induction cs)
    case Nil show ?case by (rule reps.reps_nil)
  next
    case (Cons a cs)
    then have "[a] \<in> {[c] | c. P c}" "cs \<in> reps {[c] | c. P c}" by auto
    then have "[a] @ cs \<in> reps {[c] | c. P c}" by (rule reps.reps_app)
    then show ?case by simp
  qed
qed

lemma underscore_range: "in_range (CHR ''_'', CHR ''_'') c = (c = CHR ''_'')"
proof -
  have "(of_char c = (95::nat)) = (c = CHR ''_'')"
    using of_char_eq_iff [of c "CHR ''_''", where ?'a = nat] by simp
  then show ?thesis by (auto simp: in_range_def)
qed

lemma start_class:
  "in_class [(CHR ''a'', CHR ''z''), (CHR ''A'', CHR ''Z''), (CHR ''_'', CHR ''_'')] c
     = (letter c \<or> c = CHR ''_'')"
  by (simp add: in_class_def letter_def underscore_range)

lemma part_class:
  "in_class [(CHR ''a'', CHR ''z''), (CHR ''A'', CHR ''Z''), (CHR ''0'', CHR ''9''),
             (CHR ''_'', CHR ''_'')] c
     = (letter c \<or> digit c \<or> c = CHR ''_'')"
  by (simp add: in_class_def letter_def digit_def underscore_range)

lemma conc_single: "(s \<in> conc {[c] | c. P c} B) = (\<exists>c cs. s = c # cs \<and> P c \<and> cs \<in> B)"
proof
  assume "s \<in> conc {[c] | c. P c} B"
  then show "\<exists>c cs. s = c # cs \<and> P c \<and> cs \<in> B" by (auto simp: conc_def)
next
  assume "\<exists>c cs. s = c # cs \<and> P c \<and> cs \<in> B"
  then obtain c cs where "s = [c] @ cs" "P c" "cs \<in> B" by auto
  then show "s \<in> conc {[c] | c. P c} B" unfolding conc_def by blast
qed

text \<open>The pattern matches exactly the strings that start with a letter or an underscore
  and go on with letters, digits and underscores.\<close>

lemma identifier_lang:
  "(s \<in> lang identifier_regex) =
     (\<exists>c cs. s = c # cs \<and> (letter c \<or> c = CHR ''_'')
        \<and> (\<forall>x\<in>set cs. letter x \<or> digit x \<or> x = CHR ''_''))"
  unfolding identifier_regex_def lang.simps start_class part_class reps_class conc_single
  by simp

text \<open>
  C4. For every string \<open>s\<close>, \<open>sanitizeSQLIdentifier s\<close> succeeds if and only if \<open>s\<close>
  matches the pattern \<^verbatim>\<open>^[A-Za-z_][A-Za-z0-9_]*$\<close>; on success it returns \<open>s\<close>
  unchanged, and on mismatch it fails with the invalid-identifier error that carries
  \<open>s\<close>.
\<close>

theorem sanitize_succeeds_iff_matches:
  "((\<exists>r. sanitizeSQLIdentifier s = Inr r) \<longleftrightarrow> s \<in> lang identifier_regex) \<and>
   (s \<in> lang identifier_regex \<longrightarrow> sanitizeSQLIdentifier s = Inr s) \<and>
   (s \<notin> lang identifier_regex \<longrightarrow> sanitizeSQLIdentifier s = Inl (InvalidIdentifier s))"
  by (simp add: sanitizeSQLIdentifier_def isValidSQLIdentifier_def test_lang)

theorem sanitize_succeeds_iff_matches_witness:
  "''user_1'' \<in> lang identifier_regex \<and> sanitizeSQLIdentifier ''user_1'' = Inr ''user_1'' \<and>
   ''1abc'' \<notin> lang identifier_regex \<and>
   sanitizeSQLIdentifier ''1abc'' = Inl (InvalidIdentifier ''1abc'')"
proof -
  have a: "test identifier_regex ''user_1''"
    by (simp add: identifier_regex_def in_class_def in_range_def)
  have b: "\<not> test identifier_regex ''1abc''"
    by (simp add: identifier_regex_def in_class_def in_range_def)
  from a have c: "''user_1'' \<in> lang identifier_regex" by (simp add: test_lang)
  from b have d: "''1abc'' \<notin> lang identifier_regex" by (simp add: test_lang)
  note t1 = sanitize_succeeds_iff_matches [of "''user_1''"]
  note t2 = sanitize_succeeds_iff_matches [of "''1abc''"]
  from t1 c have e: "sanitizeSQLIdentifier ''user_1'' = Inr ''user_1''" by blast
  from t2 d have f: "sanitizeSQLIdentifier ''1abc'' = Inl (InvalidIdentifier ''1abc'')" by blast
  from c d e f show ?thesis by blast
qed

subsection \<open>Connection manager\<close>

lemma getConnection_none: "connection w = None \<Longrightarrow> getConnection w = (Inl NotInitialized, w)"
  by (simp add: getConnection_def)

lemma fst_disconnect: "fst (disconnect w) = Inr ()"
  by (auto simp: disconnect_def split: prod.splits option.splits)

lemma closeConnection_none: "connection (snd (closeConnection w)) = None"
  using fst_disconnect [of w]
  by (cases "disconnect w")
     (auto simp: closeConnection_def bind_def split: option.splits sum.splits)

lemma closeConnection_ok: "fst (closeConnection w) = Inr ()"
  using fst_disconnect [of w]
  by (cases "disconnect w")
     (auto simp: closeConnection_def bind_def split: option.splits sum.splits)

lemma get_prop_defined:
  "args \<noteq> Undefined \<Longrightarrow> args \<noteq> Null \<Longrightarrow> \<exists>v. get_prop args k = Inr v"
  by (cases args) (auto split: option.splits)

lemma handle_op_not_initialized:
  assumes "connection w = None" and "well_shaped x"
  shows "handle_op env x w = (Inl NotInitialized, w)"
proof (cases x)
  case (CreateMigration args)
  with assms obtain v where "validateInput CreateMigrationSchema args = Inr v"
    by (cases "validateInput CreateMigrationSchema args") auto
  with assms CreateMigration show ?thesis
    by (cases v) (simp add: handleCreateMigration_def bind_def lift_def getConnection_def)
next
  case ListMigrations
  with assms show ?thesis by (simp add: handleListMigrations_def bind_def getConnection_def)
next
  case (ApplyMigration args)
  with assms obtain v where "get_prop args ''migrationId'' = Inr v"
    using get_prop_defined [of args] by auto
  with assms ApplyMigration show ?thesis
    by (simp add: handleApplyMigration_def bind_def lift_def getConnection_def)
next
  case (RollbackMigration args)
  with assms obtain v where "get_prop args ''migrationId'' = Inr v"
    using get_prop_defined [of args] by auto
  with assms RollbackMigration show ?thesis
    by (simp add: handleRollbackMigration_def bind_def lift_def getConnection_def)
next
  case GetMigrationStatus
  with assms show ?thesis by (simp add: handleGetMigrationStatus_def bind_def getConnection_def)
qed

text \<open>
  C8. \<open>getConnection\<close>, and with it every operation of the engine whose arguments are
  well shaped, fails with the not-initialized error while no connection has been
  initialized, and again after \<open>initConnection\<close> followed by \<open>closeConnection\<close>,
  whether or not the session could be opened or closed. \<open>closeConnection\<close> never
  throws; closing twice, or closing when nothing was opened, changes nothing.
\<close>

theorem get_needs_live_connection:
  "(connection w = None \<longrightarrow> getConnection w = (Inl NotInitialized, w)) \<and>
   (connection w = None \<and> well_shaped x \<longrightarrow> handle_op env x w = (Inl NotInitialized, w)) \<and>
   fst (getConnection (snd (closeConnection (snd (initConnection cfg w))))) = Inl NotInitialized \<and>
   (well_shaped x \<longrightarrow>
      fst (handle_op env x (snd (closeConnection (snd (initConnection cfg w))))) = Inl NotInitialized) \<and>
   fst (closeConnection w) = Inr () \<and>
   closeConnection (snd (closeConnection w)) = (Inr (), snd (closeConnection w)) \<and>
   (connection w = None \<longrightarrow> closeConnection w = (Inr (), w))"
proof -
  have a: "connection (snd (closeConnection w)) = None" by (rule closeConnection_none)
  have b: "connection (snd (closeConnection (snd (initConnection cfg w)))) = None"
    by (rule closeConnection_none)
  have 1: "connection w = None \<longrightarrow> getConnection w = (Inl NotInitialized, w)"
    by (simp add: getConnection_def)
  have 2: "connection w = None \<and> well_shaped x \<longrightarrow> handle_op env x w = (Inl NotInitialized, w)"
    by (simp add: handle_op_not_initialized)
  have 3: "fst (getConnection (snd (closeConnection (snd (initConnection cfg w))))) = Inl NotInitialized"
    using b by (simp add: getConnection_def)
  have 4: "well_shaped x \<longrightarrow>
      fst (handle_op env x (snd (closeConnection (snd (initConnection cfg w))))) = Inl NotInitialized"
    using b by (simp add: handle_op_not_initialized)
  have 5: "fst (closeConnection w) = Inr ()" by (rule closeConnection_ok)
  have 6: "closeConnection (snd (closeConnection w)) = (Inr (), snd (closeConnection w))"
    using a by (simp add: closeConnection_def)
  have 7: "connection w = None \<longrightarrow> closeConnection w = (Inr (), w)"
    by (simp add: closeConnection_def)
  from 1 2 3 4 5 6 7 show ?thesis by blast
qed

lemma fresh_connection: "connection (fresh_world fs) = None"
  by (simp add: fresh_world_def)

theorem get_needs_live_connection_witness:
  "connection (fresh_world []) = None \<and>
   well_shaped (ApplyMigration (Obj [(''migrationId'', Str (demo_uuid 1))])) \<and>
   getConnection (fresh_world []) = (Inl NotInitialized, fresh_world []) \<and>
   handle_op demo_env (ApplyMigration (Obj [(''migrationId'', Str (demo_uuid 1))])) (fresh_world [])
     = (Inl NotInitialized, fresh_world []) \<and>
   fst (handle_op demo_env (ApplyMigration (Obj [(''migrationId'', Str (demo_uuid 1))]))
          (snd (closeConnection (snd (initConnection demo_config (fresh_world []))))))
     = Inl NotInitialized \<and>
   closeConnection (fresh_world []) = (Inr (), fresh_world [])"
  using get_needs_live_connection [of "fresh_world []"
      "ApplyMigration (Obj [(''migrationId'', Str (demo_uuid 1))])" demo_env demo_config]
  by (simp add: fresh_connection)

lemma connect_fault:
  "faults w = Some m # fs \<Longrightarrow> connect w = (Inl (DbError m), w\<lparr>faults := fs\<rparr>)"
  by (simp add: connect_def next_fault_def)

text \<open>
  C10. When \<open>initConnection\<close> cannot open the session, the error is thrown after the
  module variable has been replaced: it then holds the new instance, which never
  connected, so \<open>getConnection\<close> returns that instance instead of failing, a handle
  that was held and connected before is gone, and every query on the new instance is
  rejected.
\<close>

theorem init_failure_replaces_singleton:
  "faults w = Some m # fs \<Longrightarrow>
     fst (initConnection cfg w) = Inl (DbError m) \<and>
     connection (snd (initConnection cfg w)) = Some \<lparr>hconfig = cfg, connected = False\<rparr> \<and>
     getConnection (snd (initConnection cfg w))
       = (Inr \<lparr>hconfig = cfg, connected = False\<rparr>, snd (initConnection cfg w)) \<and>
     (\<forall>h. connection w = Some h \<and> connected h \<longrightarrow> connection (snd (initConnection cfg w)) \<noteq> Some h) \<and>
     (\<forall>env st. fst (query env \<lparr>hconfig = cfg, connected = False\<rparr> st (snd (initConnection cfg w)))
        = Inl (DbError not_queryable))"
  by (auto simp: initConnection_def bind_def connect_def next_fault_def getConnection_def query_def)

theorem init_failure_replaces_singleton_witness:
  "faults (snd (initConnection demo_config (fresh_world [None, Some ''connect ECONNREFUSED'']))
            :: string list world)
     = Some ''connect ECONNREFUSED'' # [] \<and>
   connection (snd (initConnection demo_config (fresh_world [None, Some ''connect ECONNREFUSED'']))
                 :: string list world)
     = Some \<lparr>hconfig = demo_config, connected = True\<rparr> \<and>
   fst (initConnection demo_config
          (snd (initConnection demo_config (fresh_world [None, Some ''connect ECONNREFUSED'']))))
     = Inl (DbError ''connect ECONNREFUSED'') \<and>
   fst (getConnection (snd (initConnection demo_config
          (snd (initConnection demo_config (fresh_world [None, Some ''connect ECONNREFUSED'']))))))
     = Inr \<lparr>hconfig = demo_config, connected = False\<rparr>"
proof -
  have f: "faults (snd (initConnection demo_config
             (fresh_world [None, Some ''connect ECONNREFUSED''])) :: string list world)
           = Some ''connect ECONNREFUSED'' # []"
    by (simp add: initConnection_def bind_def connect_def next_fault_def getConnection_def
        fresh_world_def set_connected_def session_reset_def)
  have c: "connection (snd (initConnection demo_config
             (fresh_world [None, Some ''connect ECONNREFUSED''])) :: string list world)
           = Some \<lparr>hconfig = demo_config, connected = True\<rparr>"
    by (simp add: initConnection_def bind_def connect_def next_fault_def getConnection_def
        fresh_world_def set_connected_def session_reset_def)
  from f c init_failure_replaces_singleton [OF f, of demo_config] show ?thesis by simp
qed

subsection \<open>Queries\<close>

lemma query_rejected:
  "\<not> connected h \<Longrightarrow> query env h st w = (Inl (DbError not_queryable), w)"
  by (simp add: query_def)

lemma query_fault:
  "connected h \<Longrightarrow> peek (faults w) = Some m \<Longrightarrow>
     query env h st w = (Inl (DbError m), w\<lparr>faults := tl (faults w), log := log w @ [(st, Some m)]\<rparr>)"
  by (simp add: query_def next_fault_def)

lemma query_run:
  "connected h \<Longrightarrow> peek (faults w) = None \<Longrightarrow>
     query env h st w =
       (case db_exec env st (tick (db w)) of
          (Inl m, d) \<Rightarrow>
            (Inl (DbError m), w\<lparr>faults := tl (faults w), db := d, log := log w @ [(st, Some m)]\<rparr>)
        | (Inr r, d) \<Rightarrow>
            (Inr r, w\<lparr>faults := tl (faults w), db := d, log := log w @ [(st, None)]\<rparr>))"
  by (simp add: query_def next_fault_def split: prod.splits sum.splits)

lemma quiet_peek: "list_all (\<lambda>f. f = None) fs \<Longrightarrow> peek fs = None"
  by (cases fs) auto

lemma quiet_tl: "list_all (\<lambda>f. f = None) fs \<Longrightarrow> list_all (\<lambda>f. f = None) (tl fs)"
  by (cases fs) auto

lemma calm_peek: "calm w \<Longrightarrow> peek (faults w) = None"
  by (simp add: calm_def quiet_peek)

lemma calm_step: "calm w \<Longrightarrow> calm (w\<lparr>faults := tl (faults w), db := d, log := l\<rparr>)"
  by (simp add: calm_def quiet_tl)

lemma query_calm:
  "connected h \<Longrightarrow> calm w \<Longrightarrow>
     query env h st w =
       (case db_exec env st (tick (db w)) of
          (Inl m, d) \<Rightarrow>
            (Inl (DbError m), w\<lparr>faults := tl (faults w), db := d, log := log w @ [(st, Some m)]\<rparr>)
        | (Inr r, d) \<Rightarrow>
            (Inr r, w\<lparr>faults := tl (faults w), db := d, log := log w @ [(st, None)]\<rparr>))"
  by (simp add: query_run calm_peek)

lemma ensure_calm:
  "connection w = Some h \<Longrightarrow> connected h \<Longrightarrow> calm w \<Longrightarrow>
     ensureMigrationTable env w =
       (Inr (), w\<lparr>faults := tl (faults w),
                  db := (tick (db w))\<lparr>cur := (cur (db w))\<lparr>tbl := Some (the_rows (cur (db w)))\<rparr>\<rparr>,
                  log := log w @ [(CreateTable, None)]\<rparr>)"
  by (cases "tbl (cur (db w))")
     (simp_all add: ensureMigrationTable_def bind_def ret_def getConnection_def query_calm
       the_rows_def set_rows_def tick_def)


subsection \<open>Status\<close>

lemma sql_max_somes:
  "sql_max xs = (if somes xs = [] then None else Some (Max (set (somes xs))))"
proof (induction xs rule: sql_max.induct)
  case 1
  show ?case by simp
next
  case (2 xs)
  then show ?case by simp
next
  case (3 a xs)
  then show ?case by (simp add: Max_insert)
qed

lemma somes_cons: "somes (x # xs) = (case x of None \<Rightarrow> [] | Some t \<Rightarrow> [t]) @ somes xs"
  by (cases x) simp_all

lemma somes_ok: "rows_ok rs \<Longrightarrow> flagged rs \<Longrightarrow> somes (map applied_at rs) = applied_times rs"
proof (induction rs)
  case Nil
  show ?case by (simp add: applied_times_def)
next
  case (Cons a rs)
  then have "somes (map applied_at rs) = applied_times rs"
    by (simp add: rows_ok_def flagged_def)
  moreover from Cons(2,3) have "\<not> is_applied a \<longrightarrow> applied_at a = None"
    by (auto simp: rows_ok_def flagged_def is_applied_def)
  ultimately show ?case by (cases "is_applied a") (simp_all add: applied_times_def somes_cons)
qed

lemma sql_max_last_stamp: "sql_max (map applied_at rs) = last_stamp rs"
  by (cases "somes (map applied_at rs)") (simp_all add: sql_max_somes last_stamp_def)

lemma last_stamp_applied: "rows_ok rs \<Longrightarrow> flagged rs \<Longrightarrow> last_stamp rs = last_applied rs"
  by (simp add: last_stamp_def last_applied_def somes_ok)

lemma three_counts:
  "length (filter is_applied rs) + length (filter (\<lambda>r. applied r = Some False) rs)
     + length (filter (\<lambda>r. applied r = None) rs) = length rs"
proof (induction rs)
  case Nil
  show ?case by simp
next
  case (Cons a rs)
  then show ?case by (cases "applied a") (auto simp: is_applied_def)
qed

lemma two_counts:
  "flagged rs \<Longrightarrow>
     length (filter is_applied rs) + length (filter (\<lambda>r. applied r = Some False) rs) = length rs"
proof -
  assume "flagged rs"
  then have "filter (\<lambda>r. applied r = None) rs = []" by (auto simp: flagged_def filter_empty_conv)
  with three_counts [of rs] show ?thesis by simp
qed

text \<open>
  C9. On a live connection with no failing statement, for every state of the store,
  \<open>get_migration_status\<close> returns the number of records, the number of records whose
  flag is true and the number of records whose flag is false, which together with the
  records whose flag is null add up to the total, and \<^verbatim>\<open>MAX(applied_at)\<close>, the
  greatest time of application among all the records that carry one, applied or not,
  or nothing when no record carries one. On a store in which every record has its flag,
  applied and pending add up to the total; if its records also satisfy the record
  invariant, the time returned is the greatest time of application among the applied
  records.
\<close>

theorem status_counts:
  assumes "connection w = Some h" and "connected h" and "calm w"
  shows "fst (handleGetMigrationStatus env w)
           = Inr (Success (StatusOk (length (the_rows (cur (db w))))
                    (length (filter is_applied (the_rows (cur (db w)))))
                    (length (filter (\<lambda>r. applied r = Some False) (the_rows (cur (db w)))))
                    (last_stamp (the_rows (cur (db w))))))
         \<and> length (filter is_applied (the_rows (cur (db w))))
             + length (filter (\<lambda>r. applied r = Some False) (the_rows (cur (db w))))
             + length (filter (\<lambda>r. applied r = None) (the_rows (cur (db w))))
           = length (the_rows (cur (db w)))
         \<and> (flagged (the_rows (cur (db w))) \<longrightarrow>
              length (filter is_applied (the_rows (cur (db w))))
                + length (filter (\<lambda>r. applied r = Some False) (the_rows (cur (db w))))
              = length (the_rows (cur (db w))))
         \<and> (rows_ok (the_rows (cur (db w))) \<and> flagged (the_rows (cur (db w))) \<longrightarrow>
              last_stamp (the_rows (cur (db w))) = last_applied (the_rows (cur (db w))))"
proof -
  have c: "calm (w\<lparr>faults := tl (faults w),
                  db := (tick (db w))\<lparr>cur := (cur (db w))\<lparr>tbl := Some (the_rows (cur (db w)))\<rparr>\<rparr>,
                  log := log w @ [(CreateTable, None)]\<rparr>)"
    using assms(3) by (rule calm_step)
  have "fst (handleGetMigrationStatus env w)
           = Inr (Success (StatusOk (length (the_rows (cur (db w))))
                    (length (filter is_applied (the_rows (cur (db w)))))
                    (length (filter (\<lambda>r. applied r = Some False) (the_rows (cur (db w)))))
                    (sql_max (map applied_at (the_rows (cur (db w)))))))"
    using assms c
    by (simp add: handleGetMigrationStatus_def bind_def try_catch_def ret_def getConnection_def
        ensure_calm query_calm tick_def)
  then show ?thesis
    by (simp add: sql_max_last_stamp last_stamp_applied three_counts two_counts)
qed

theorem status_counts_witness:
  "connection three_created_one_applied = Some \<lparr>hconfig = demo_config, connected = True\<rparr> \<and>
   connected \<lparr>hconfig = demo_config, connected = True\<rparr> \<and>
   calm three_created_one_applied \<and>
   rows_ok (the_rows (cur (db three_created_one_applied))) \<and>
   flagged (the_rows (cur (db three_created_one_applied))) \<and>
   fst (handleGetMigrationStatus demo_env three_created_one_applied)
     = Inr (Success (StatusOk 3 1 2 (Some 9))) \<and>
   last_applied (the_rows (cur (db three_created_one_applied))) = Some 9"
proof -
  have h1: "connection three_created_one_applied
              = Some \<lparr>hconfig = demo_config, connected = True\<rparr>"
    by code_simp
  have h2: "connected \<lparr>hconfig = demo_config, connected = True\<rparr>" by simp
  have h3: "calm three_created_one_applied" by code_simp
  have h4: "rows_ok (the_rows (cur (db three_created_one_applied)))"
    unfolding rows_ok_def by code_simp
  have h5: "flagged (the_rows (cur (db three_created_one_applied)))"
    unfolding flagged_def by code_simp
  have n: "length (the_rows (cur (db three_created_one_applied))) = 3"
    "length (filter is_applied (the_rows (cur (db three_created_one_applied)))) = 1"
    "length (filter (\<lambda>r. applied r = Some False) (the_rows (cur (db three_created_one_applied)))) = 2"
    "sql_max (map applied_at (the_rows (cur (db three_created_one_applied)))) = Some 9"
    by code_simp+
  from n(4) have s: "last_stamp (the_rows (cur (db three_created_one_applied))) = Some 9"
    by (simp add: sql_max_last_stamp)
  from status_counts [OF h1 h2 h3, of demo_env] h4 h5 n s
  have "fst (handleGetMigrationStatus demo_env three_created_one_applied)
          = Inr (Success (StatusOk 3 1 2 (Some 9)))"
    and "last_applied (the_rows (cur (db three_created_one_applied))) = Some 9"
    by simp_all
  with h1 h2 h3 h4 h5 show ?thesis by blast
qed

text \<open>
  After a migration whose forward SQL writes a time of application into every record
  has been applied and rolled back, no record is applied, and the status still reports
  a time of last application: that of the record the rollback did not reset. And after
  a migration whose forward SQL sets every flag to null has been applied, one of the two
  records is counted as applied and none as pending.
\<close>

theorem status_reports_time_of_unapplied_record:
  "filter is_applied (the_rows (cur (db (run_ops wild_env
       [ApplyMigration (by_id (demo_uuid 2)), RollbackMigration (by_id (demo_uuid 2))]
       rewrite_created)))) = [] \<and>
   last_applied (the_rows (cur (db (run_ops wild_env
       [ApplyMigration (by_id (demo_uuid 2)), RollbackMigration (by_id (demo_uuid 2))]
       rewrite_created)))) = None \<and>
   fst (handleGetMigrationStatus wild_env (run_ops wild_env
       [ApplyMigration (by_id (demo_uuid 2)), RollbackMigration (by_id (demo_uuid 2))]
       rewrite_created))
     = Inr (Success (StatusOk 2 0 2 (Some 7))) \<and>
   map (\<lambda>x. (name x, applied x)) (the_rows (cur (db (run_ops wild_env
       [ApplyMigration (by_id (demo_uuid 2))] forget_created))))
     = [(''forget'', Some True), (''add_posts'', None)] \<and>
   fst (handleGetMigrationStatus wild_env (run_ops wild_env
       [ApplyMigration (by_id (demo_uuid 2))] forget_created))
     = Inr (Success (StatusOk 2 1 0 (Some 7)))"
  by code_simp

subsection \<open>Every way through a handler\<close>







lemma getE:
  assumes "getConnection w = (out, w')"
  obtains "connection w = None" "out = Inl NotInitialized" "w' = w"
  | h where "connection w = Some h" "out = Inr h" "w' = w"
  using assms by (auto simp: getConnection_def split: option.splits)


lemma cur_tick [simp]: "cur (tick d) = cur d" and tx_tick [simp]: "tx (tick d) = tx d"
  by (simp_all add: tick_def)














subsection \<open>The two handlers as instances\<close>

lemma matches_filter:
  "uuid_param env p = Inr k \<Longrightarrow> filter (has_id k) rs = filter (matches env p) rs"
  by (auto simp: matches_def has_id_def intro: filter_cong)















subsection \<open>What is thrown and what is returned\<close>

lemma validate_error:
  "validateInput CreateMigrationSchema args = Inl e \<Longrightarrow> \<exists>ps. e = ValidationFailed ps"
  by (auto simp: validateInput_def split: sum.splits)


lemma bind_lift_Inr: "bind (lift (Inr v)) f = f v"
  by (simp add: bind_def lift_def)

lemma bind_lift_Inl: "bind (lift (Inl e)) f w = (Inl e, w)"
  by (simp add: bind_def lift_def)

lemma bind_get_Some: "connection w = Some h \<Longrightarrow> bind getConnection f w = f h w"
  by (simp add: bind_def getConnection_def)






























subsection \<open>Runs in which no statement fails\<close>

lemma query_quiet:
  "connected h \<Longrightarrow> list_all (\<lambda>f. f = None) (faults w) \<Longrightarrow>
     query env h st w =
       (case db_exec env st (tick (db w)) of
          (Inl m, d) \<Rightarrow>
            (Inl (DbError m), w\<lparr>faults := tl (faults w), db := d, log := log w @ [(st, Some m)]\<rparr>)
        | (Inr r, d) \<Rightarrow>
            (Inr r, w\<lparr>faults := tl (faults w), db := d, log := log w @ [(st, None)]\<rparr>))"
  by (simp add: query_run quiet_peek)


lemma query_quiet_bad:
  assumes "connected h" and "list_all (\<lambda>f. f = None) (faults w)"
    and "fst (db_exec env st (tick (db w))) = Inl m"
  shows "query env h st w =
           (Inl (DbError m), w\<lparr>faults := tl (faults w), db := snd (db_exec env st (tick (db w))),
                               log := log w @ [(st, Some m)]\<rparr>)"
  using assms by (cases "db_exec env st (tick (db w))") (simp add: query_quiet)

lemmas calm_run = bind_def try_catch_def ret_def throw_def lift_def report_def
  ensureMigrationTable_def getConnection_def query_quiet quiet_tl tick_def set_rows_def



lemma calm_prefix:
  assumes "connection w = Some h" and "connected h" and "list_all (\<lambda>f. f = None) (faults w)"
    and "sel = SelectForApply p \<or> sel = SelectForRollback p"
    and "uuid_param env p = Inr k"
  shows "bind (ensureMigrationTable env) (\<lambda>u. bind (query env h sel) f) w
         = f (Rows (filter (matches env p) (the_rows (cur (db w))))) (looked_up sel w)"
  using assms matches_filter [OF assms(5)]
  by (cases "tbl (cur (db w))") (auto simp: calm_run the_rows_def looked_up_def ensured_def)

lemma calm_prefix_rejected:
  assumes "connection w = Some h" and "connected h" and "list_all (\<lambda>f. f = None) (faults w)"
    and "sel = SelectForApply p \<or> sel = SelectForRollback p"
    and "uuid_param env p = Inl m"
  shows "bind (ensureMigrationTable env) (\<lambda>u. bind (query env h sel) f) w
         = (Inl (DbError m), lookup_rejected sel m w)"
  using assms
  by (cases "tbl (cur (db w))") (auto simp: calm_run the_rows_def lookup_rejected_def ensured_def)




lemma try_report_Inr: "m w = (Inr x, w') \<Longrightarrow> try_catch m report w = (Inr x, w')"
  by (simp add: try_catch_def)

lemma try_report_Inl:
  "m w = (Inl e, w') \<Longrightarrow> try_catch m report w = (Inr (Failure (Caught e)), w')"
  by (simp add: try_catch_def report_def ret_def)













lemma by_id_not_found:
  assumes conn: "connection w = Some h" and h: "connected h" and calm: "calm w"
    and p: "get_prop args ''migrationId'' = Inr p"
    and k: "uuid_param env p = Inr k"
    and found: "filter (matches env p) (the_rows (cur (db w))) = []"
  shows "handleApplyMigration env args w
           = (Inr (Failure (NotFound p)), looked_up (SelectForApply p) w)"
    and "handleRollbackMigration env args w
           = (Inr (Failure (NotFound p)), looked_up (SelectForRollback p) w)"
proof -
  from calm have q: "list_all (\<lambda>f. f = None) (faults w)" by (simp add: calm_def)
  show "handleApplyMigration env args w
           = (Inr (Failure (NotFound p)), looked_up (SelectForApply p) w)"
    using p conn found
    by (simp add: handleApplyMigration_def bind_lift_Inr bind_get_Some try_report_Inr ret_def
        calm_prefix [OF conn h q _ k, of "SelectForApply p"])
  show "handleRollbackMigration env args w
           = (Inr (Failure (NotFound p)), looked_up (SelectForRollback p) w)"
    using p conn found
    by (simp add: handleRollbackMigration_def bind_lift_Inr bind_get_Some try_report_Inr ret_def
        calm_prefix [OF conn h q _ k, of "SelectForRollback p"])
qed

lemma by_id_rejected:
  assumes conn: "connection w = Some h" and h: "connected h" and calm: "calm w"
    and p: "get_prop args ''migrationId'' = Inr p"
    and k: "uuid_param env p = Inl m"
  shows "handleApplyMigration env args w
           = (Inr (Failure (Caught (DbError m))), lookup_rejected (SelectForApply p) m w)"
    and "handleRollbackMigration env args w
           = (Inr (Failure (Caught (DbError m))), lookup_rejected (SelectForRollback p) m w)"
proof -
  from calm have q: "list_all (\<lambda>f. f = None) (faults w)" by (simp add: calm_def)
  show "handleApplyMigration env args w
           = (Inr (Failure (Caught (DbError m))), lookup_rejected (SelectForApply p) m w)"
    using p conn
    by (simp add: handleApplyMigration_def bind_lift_Inr bind_get_Some try_report_Inl
        calm_prefix_rejected [OF conn h q _ k, of "SelectForApply p"])
  show "handleRollbackMigration env args w
           = (Inr (Failure (Caught (DbError m))), lookup_rejected (SelectForRollback p) m w)"
    using p conn
    by (simp add: handleRollbackMigration_def bind_lift_Inr bind_get_Some try_report_Inl
        calm_prefix_rejected [OF conn h q _ k, of "SelectForRollback p"])
qed








subsection \<open>Validation of arguments\<close>

lemma schema_accepts:
  "(\<exists>v. validateInput CreateMigrationSchema args = Inr v) =
     (\<exists>kvs n u d. args = Obj kvs \<and> map_of (rev kvs) ''name'' = Some (Str n)
        \<and> map_of (rev kvs) ''up'' = Some (Str u) \<and> map_of (rev kvs) ''down'' = Some (Str d))"
proof (cases args)
  case (Obj kvs)
  show ?thesis
  proof (cases "map_of (rev kvs) ''name''")
    case None
    with Obj show ?thesis by (simp add: validateInput_def)
  next
    case n: (Some vn)
    show ?thesis
    proof (cases "map_of (rev kvs) ''up''")
      case None
      with Obj n show ?thesis by (cases vn) (simp_all add: validateInput_def)
    next
      case u: (Some vu)
      show ?thesis
      proof (cases "map_of (rev kvs) ''down''")
        case None
        with Obj n u show ?thesis by (cases vn; cases vu) (simp_all add: validateInput_def)
      next
        case d: (Some vd)
        with Obj n u show ?thesis
          by (cases vn; cases vu; cases vd) (simp_all add: validateInput_def)
      qed
    qed
  qed
qed (simp_all add: validateInput_def)

lemma create_rejects:
  "validateInput CreateMigrationSchema args = Inl e \<Longrightarrow>
     handleCreateMigration env args w = (Inl e, w)"
  by (simp add: handleCreateMigration_def bind_lift_Inl)

lemma by_id_type_error:
  "args = Undefined \<or> args = Null \<Longrightarrow>
     handleApplyMigration env args w = (Inl TypeError, w) \<and>
     handleRollbackMigration env args w = (Inl TypeError, w)"
  by (auto simp: handleApplyMigration_def handleRollbackMigration_def bind_lift_Inl)

lemma null_param:
  "p = Undefined \<or> p = Null \<Longrightarrow> uuid_param env p = Inr None \<and> filter (matches env p) rs = []"
  by (auto simp: matches_def)

lemma foreign_param:
  "p \<noteq> Undefined \<Longrightarrow> p \<noteq> Null \<Longrightarrow> \<forall>s. p = Str s \<longrightarrow> uuid_in env s = None \<Longrightarrow>
     uuid_param env p = Inl bad_uuid"
  by (cases p) simp_all

text \<open>
  C7. \<^verbatim>\<open>create_migration\<close> validates its arguments against its schema (an object
  whose \<^verbatim>\<open>name\<close>, \<^verbatim>\<open>up\<close> and \<^verbatim>\<open>down\<close> are strings) before it fetches the
  connection or sends any statement: on malformed input it throws the validation error
  and changes nothing. \<^verbatim>\<open>apply_migration\<close> and \<^verbatim>\<open>rollback_migration\<close> validate
  nothing: \<^verbatim>\<open>undefined\<close> or \<^verbatim>\<open>null\<close> arguments make them throw a type error, and
  any other arguments give a \<^verbatim>\<open>migrationId\<close>, whatever it is, that is sent as the
  parameter of the lookup after the table creation. On a live connection with no
  fault, a \<^verbatim>\<open>migrationId\<close> that is \<^verbatim>\<open>undefined\<close> or \<^verbatim>\<open>null\<close> selects no record
  and the result is the not-found failure; one that is neither and is not the text of
  an identifier makes the server reject the lookup, and the result is the failure with
  the server's error.
\<close>

theorem create_validates_apply_does_not:
  "(validateInput CreateMigrationSchema args = Inl e \<longrightarrow>
      handleCreateMigration env args w = (Inl e, w) \<and> (\<exists>ps. e = ValidationFailed ps))
 \<and> ((\<exists>v. validateInput CreateMigrationSchema args = Inr v) =
      (\<exists>kvs n u d. args = Obj kvs \<and> map_of (rev kvs) ''name'' = Some (Str n)
        \<and> map_of (rev kvs) ''up'' = Some (Str u) \<and> map_of (rev kvs) ''down'' = Some (Str d)))
 \<and> (snd (handleCreateMigration env args w) \<noteq> w \<longrightarrow>
      (\<exists>v. validateInput CreateMigrationSchema args = Inr v))
 \<and> (args = Undefined \<or> args = Null \<longrightarrow>
      handleApplyMigration env args w = (Inl TypeError, w) \<and>
      handleRollbackMigration env args w = (Inl TypeError, w))
 \<and> (args \<noteq> Undefined \<and> args \<noteq> Null \<longrightarrow> (\<exists>v. get_prop args ''migrationId'' = Inr v))
 \<and> (connection w = Some h \<and> connected h \<and> calm w \<and> get_prop args ''migrationId'' = Inr p
      \<and> (p = Undefined \<or> p = Null) \<longrightarrow>
      handleApplyMigration env args w
        = (Inr (Failure (NotFound p)), looked_up (SelectForApply p) w) \<and>
      handleRollbackMigration env args w
        = (Inr (Failure (NotFound p)), looked_up (SelectForRollback p) w))
 \<and> (connection w = Some h \<and> connected h \<and> calm w \<and> get_prop args ''migrationId'' = Inr p
      \<and> p \<noteq> Undefined \<and> p \<noteq> Null \<and> (\<forall>s. p = Str s \<longrightarrow> uuid_in env s = None) \<longrightarrow>
      handleApplyMigration env args w
        = (Inr (Failure (Caught (DbError bad_uuid))),
           lookup_rejected (SelectForApply p) bad_uuid w) \<and>
      handleRollbackMigration env args w
        = (Inr (Failure (Caught (DbError bad_uuid))),
           lookup_rejected (SelectForRollback p) bad_uuid w))"
proof -
  have 1: "validateInput CreateMigrationSchema args = Inl e \<longrightarrow>
      handleCreateMigration env args w = (Inl e, w) \<and> (\<exists>ps. e = ValidationFailed ps)"
    using create_rejects validate_error by blast
  have 3: "snd (handleCreateMigration env args w) \<noteq> w \<longrightarrow>
      (\<exists>v. validateInput CreateMigrationSchema args = Inr v)"
    using create_rejects [of args _ env w]
    by (cases "validateInput CreateMigrationSchema args") auto
  have 4: "args = Undefined \<or> args = Null \<longrightarrow>
      handleApplyMigration env args w = (Inl TypeError, w) \<and>
      handleRollbackMigration env args w = (Inl TypeError, w)"
    using by_id_type_error by blast
  have 5: "args \<noteq> Undefined \<and> args \<noteq> Null \<longrightarrow> (\<exists>v. get_prop args ''migrationId'' = Inr v)"
    using get_prop_defined by blast
  have 6: "connection w = Some h \<and> connected h \<and> calm w \<and> get_prop args ''migrationId'' = Inr p
      \<and> (p = Undefined \<or> p = Null) \<longrightarrow>
      handleApplyMigration env args w
        = (Inr (Failure (NotFound p)), looked_up (SelectForApply p) w) \<and>
      handleRollbackMigration env args w
        = (Inr (Failure (NotFound p)), looked_up (SelectForRollback p) w)"
    using by_id_not_found [of w h args p env None] null_param [of p env "the_rows (cur (db w))"]
    by blast
  have 7: "connection w = Some h \<and> connected h \<and> calm w \<and> get_prop args ''migrationId'' = Inr p
      \<and> p \<noteq> Undefined \<and> p \<noteq> Null \<and> (\<forall>s. p = Str s \<longrightarrow> uuid_in env s = None) \<longrightarrow>
      handleApplyMigration env args w
        = (Inr (Failure (Caught (DbError bad_uuid))),
           lookup_rejected (SelectForApply p) bad_uuid w) \<and>
      handleRollbackMigration env args w
        = (Inr (Failure (Caught (DbError bad_uuid))),
           lookup_rejected (SelectForRollback p) bad_uuid w)"
    using by_id_rejected [of w h args p env bad_uuid] foreign_param [of p env]
    by blast
  from 1 schema_accepts [of args] 3 4 5 6 7 show ?thesis by blast
qed

theorem create_validates_apply_does_not_witness:
  "validateInput CreateMigrationSchema (Obj [(''name'', Str ''add_users'')])
     = Inl (ValidationFailed [''up'', ''down'']) \<and>
   handleCreateMigration demo_env (Obj [(''name'', Str ''add_users'')]) one_created
     = (Inl (ValidationFailed [''up'', ''down'']), one_created) \<and>
   connection one_created = Some \<lparr>hconfig = demo_config, connected = True\<rparr> \<and>
   connected \<lparr>hconfig = demo_config, connected = True\<rparr> \<and> calm one_created \<and>
   get_prop (Obj []) ''migrationId'' = Inr Undefined \<and>
   handleApplyMigration demo_env (Obj []) one_created
     = (Inr (Failure (NotFound Undefined)), looked_up (SelectForApply Undefined) one_created) \<and>
   get_prop (Obj [(''migrationId'', Num 5)]) ''migrationId'' = Inr (Num 5) \<and>
   handleApplyMigration demo_env (Obj [(''migrationId'', Num 5)]) one_created
     = (Inr (Failure (Caught (DbError bad_uuid))),
        lookup_rejected (SelectForApply (Num 5)) bad_uuid one_created)"
proof -
  have a: "validateInput CreateMigrationSchema (Obj [(''name'', Str ''add_users'')])
     = Inl (ValidationFailed [''up'', ''down''])" by code_simp
  have c: "connection one_created = Some \<lparr>hconfig = demo_config, connected = True\<rparr>"
    by code_simp
  have h: "connected \<lparr>hconfig = demo_config, connected = True\<rparr>" by simp
  have q: "calm one_created" by code_simp
  have g: "get_prop (Obj []) ''migrationId'' = Inr Undefined" by simp
  have g5: "get_prop (Obj [(''migrationId'', Num 5)]) ''migrationId'' = Inr (Num 5)" by simp
  note t1 = create_validates_apply_does_not [of "Obj [(''name'', Str ''add_users'')]"
      "ValidationFailed [''up'', ''down'']" demo_env one_created]
  note t2 = create_validates_apply_does_not [of "Obj []" _ demo_env one_created
      "\<lparr>hconfig = demo_config, connected = True\<rparr>" Undefined]
  note t3 = create_validates_apply_does_not [of "Obj [(''migrationId'', Num 5)]" _ demo_env
      one_created "\<lparr>hconfig = demo_config, connected = True\<rparr>" "Num 5"]
  from t1 a have r1: "handleCreateMigration demo_env (Obj [(''name'', Str ''add_users'')]) one_created
     = (Inl (ValidationFailed [''up'', ''down'']), one_created)" by blast
  from t2 c h q g have r2: "handleApplyMigration demo_env (Obj []) one_created
     = (Inr (Failure (NotFound Undefined)), looked_up (SelectForApply Undefined) one_created)"
    by blast
  have n5: "Num 5 \<noteq> Undefined \<and> Num 5 \<noteq> Null \<and> (\<forall>s. Num 5 = Str s \<longrightarrow> uuid_in demo_env s = None)"
    by simp
  from t3 c h q g5 n5 have r3: "handleApplyMigration demo_env (Obj [(''migrationId'', Num 5)]) one_created
     = (Inr (Failure (Caught (DbError bad_uuid))),
        lookup_rejected (SelectForApply (Num 5)) bad_uuid one_created)"
    by blast
  from a r1 c h q g r2 g5 r3 show ?thesis by blast
qed

text \<open>\<^verbatim>\<open>apply_migration\<close> without a \<^verbatim>\<open>migrationId\<close>, or with a number for one, reaches
  the store: it sends the table creation and the lookup, and answers that no such
  migration exists, or with the error of the server; it raises no validation error.\<close>

theorem apply_accepts_missing_id:
  "fst (handleApplyMigration demo_env (Obj []) one_created) = Inr (Failure (NotFound Undefined)) \<and>
   log (snd (handleApplyMigration demo_env (Obj []) one_created))
     = log one_created @ [(CreateTable, None), (SelectForApply Undefined, None)] \<and>
   fst (handleApplyMigration demo_env (Obj [(''migrationId'', Num 5)]) one_created)
     = Inr (Failure (Caught (DbError ''invalid input syntax for type uuid''))) \<and>
   log (snd (handleApplyMigration demo_env (Obj [(''migrationId'', Num 5)]) one_created))
     = log one_created
         @ [(CreateTable, None),
            (SelectForApply (Num 5), Some ''invalid input syntax for type uuid'')]"
  by code_simp

subsection \<open>Names in SQL text\<close>

lemma drop_table_rejects:
  "connection w = Some h \<Longrightarrow> \<not> isValidSQLIdentifier (tableName args) \<Longrightarrow>
     handleDropTable env args w
       = (Inr (Failure (Caught (InvalidIdentifier (tableName args)))), w)"
  by (simp add: handleDropTable_def bind_get_Some try_catch_def sanitizeSQLIdentifier_def
      bind_lift_Inl report_def ret_def)

text \<open>
  C5. \<^verbatim>\<open>backup_database\<close> puts the table names it is given into SQL text as they
  are: a name that the sanitizer rejects reaches the server inside the statement.
  \<^verbatim>\<open>drop_table\<close>, given the same name, sends nothing and returns the sanitizer's error.
\<close>

theorem backup_interpolates_unsanitized_name:
  "sanitizeSQLIdentifier ''users; DROP TABLE users''
     = Inl (InvalidIdentifier ''users; DROP TABLE users'') \<and>
   handleBackupDatabase demo_env
       \<lparr>tables = Some [''users; DROP TABLE users''], format = Some JsonFormat\<rparr> (live_world [])
     = (Inr (Success BackedUp),
        (live_world [])\<lparr>db := (db (live_world []))\<lparr>cur := \<lparr>tbl = None,
                             user = [''SELECT * FROM users; DROP TABLE users'']\<rparr>, clock := 1\<rparr>,
                        log := [(Text ''SELECT * FROM users; DROP TABLE users'', None)]\<rparr>) \<and>
   handleDropTable demo_env
       \<lparr>tableName = ''users; DROP TABLE users'', schema = ''public'', cascade = False\<rparr>
       (live_world [])
     = (Inr (Failure (Caught (InvalidIdentifier ''users; DROP TABLE users''))), live_world [])"
  by code_simp

text \<open>In the SQL format, and when no format is given, the same text is sent; the answer
  to its two statements is an array, and reading its rows throws inside the \<^verbatim>\<open>try\<close>.\<close>

lemma backup_sql_format_sends_the_same_text:
  "fst (handleBackupDatabase demo_env
          \<lparr>tables = Some [''users; DROP TABLE users''], format = None\<rparr> (live_world []))
     = Inr (Failure (Caught TypeError)) \<and>
   log (snd (handleBackupDatabase demo_env
          \<lparr>tables = Some [''users; DROP TABLE users''], format = None\<rparr> (live_world [])))
     = [(Text ''SELECT * FROM users; DROP TABLE users'', None)] \<and>
   fst (handleBackupDatabase demo_env
          \<lparr>tables = Some [''users''], format = Some SqlFormat\<rparr> (live_world []))
     = Inr (Success BackedUp)"
  by code_simp

subsection \<open>The record invariant\<close>

lemma rows_ok_append: "rows_ok (xs @ ys) = (rows_ok xs \<and> rows_ok ys)"
  by (auto simp: rows_ok_def)


















subsection \<open>What an operation can do to the records\<close>













end
